theory Spec2Isabelle
  imports Complex_Main "HOL-Library.Sublist"
begin

section \<open>Values, rows and the store\<close>

text \<open>
  The backend is an Express application over PostgreSQL. Every controller is modelled as
  a function from the store (a record of tables, each table a list of rows), the clock and
  the request to either an error (\<open>Inl\<close>) or the new store and the response (\<open>Inr\<close>).
  JavaScript numbers are modelled as exact rationals: the rounding of IEEE doubles is not
  part of this model. Strings are byte strings; \<open>toLowerCase\<close> and \<open>trim\<close> are modelled
  on ASCII.
\<close>

datatype role = Student | Instructor | Admin

record principal =
  user_id :: nat
  user_role :: role

text \<open>A thrown \<open>new Error(message)\<close> or \<open>new AppError(message, statusCode)\<close>.\<close>

datatype js_error = Error string | AppError string nat

fun message :: "js_error \<Rightarrow> string" where
  "message (Error m) = m"
| "message (AppError m c) = m"

abbreviation BAD_REQUEST :: nat where "BAD_REQUEST \<equiv> 400"
abbreviation FORBIDDEN :: nat where "FORBIDDEN \<equiv> 403"
abbreviation NOT_FOUND :: nat where "NOT_FOUND \<equiv> 404"
abbreviation CONFLICT :: nat where "CONFLICT \<equiv> 409"

text \<open>
  A numeric request field or column: absent from the body (\<open>undefined\<close>), \<open>null\<close>
  (SQL \<open>NULL\<close>), \<open>NaN\<close>, or a number.
\<close>

datatype jsnum = JUndefined | JNull | JNaN | JNum rat

text \<open>\<open>ToNumber\<close>: \<open>undefined\<close> becomes \<open>NaN\<close> (here \<open>None\<close>), \<open>null\<close> becomes 0.\<close>

fun to_number :: "jsnum \<Rightarrow> rat option" where
  "to_number JUndefined = None"
| "to_number JNull = Some 0"
| "to_number JNaN = None"
| "to_number (JNum r) = Some r"

text \<open>The relational operators are false as soon as one side is \<open>NaN\<close>.\<close>

definition js_lt :: "jsnum \<Rightarrow> jsnum \<Rightarrow> bool" where
  "js_lt a b = (case (to_number a, to_number b) of (Some x, Some y) \<Rightarrow> x < y | _ \<Rightarrow> False)"

definition js_gt :: "jsnum \<Rightarrow> jsnum \<Rightarrow> bool" where
  "js_gt a b = (case (to_number a, to_number b) of (Some x, Some y) \<Rightarrow> x > y | _ \<Rightarrow> False)"

definition js_ge :: "jsnum \<Rightarrow> jsnum \<Rightarrow> bool" where
  "js_ge a b = (case (to_number a, to_number b) of (Some x, Some y) \<Rightarrow> x \<ge> y | _ \<Rightarrow> False)"

definition js_mul :: "jsnum \<Rightarrow> rat \<Rightarrow> jsnum" where
  "js_mul a r = (case to_number a of None \<Rightarrow> JNaN | Some x \<Rightarrow> JNum (x * r))"

text \<open>node-postgres sends an \<open>undefined\<close> query parameter as \<open>NULL\<close>.\<close>

fun pg_param :: "jsnum \<Rightarrow> jsnum" where
  "pg_param JUndefined = JNull"
| "pg_param v = v"

text \<open>Truthiness of a nullable boolean (\<open>null\<close> is falsy).\<close>

fun truthy :: "bool option \<Rightarrow> bool" where
  "truthy None = False"
| "truthy (Some b) = b"

subsection \<open>Strings\<close>

definition to_lower_char :: "char \<Rightarrow> char" where
  "to_lower_char c =
     (if 65 \<le> (of_char c :: nat) \<and> (of_char c :: nat) \<le> 90 then char_of ((of_char c :: nat) + 32) else c)"

definition toLowerCase :: "string \<Rightarrow> string" where
  "toLowerCase s = map to_lower_char s"

definition is_space :: "char \<Rightarrow> bool" where
  "is_space c = ((of_char c :: nat) \<in> {9, 10, 11, 12, 13, 32})"

definition trim :: "string \<Rightarrow> string" where
  "trim s = rev (dropWhile is_space (rev (dropWhile is_space s)))"

definition digit_char :: "nat \<Rightarrow> char" where
  "digit_char d = char_of (48 + d)"

fun show_nat :: "nat \<Rightarrow> string" where
  "show_nat n = (if n < 10 then [digit_char n] else show_nat (n div 10) @ [digit_char (n mod 10)])"

declare show_nat.simps [simp del]

definition show_int :: "int \<Rightarrow> string" where
  "show_int i = (if i < 0 then ''-'' @ show_nat (nat (- i)) else show_nat (nat i))"

text \<open>\<open>String.prototype.includes\<close>: the argument occurs as a contiguous substring.\<close>

definition str_includes :: "string \<Rightarrow> string \<Rightarrow> bool" where
  "str_includes s sub = sublist sub s"

text \<open>\<open>!s\<close> for an optional string: \<open>undefined\<close> and the empty string are falsy.\<close>

fun falsy_str :: "string option \<Rightarrow> bool" where
  "falsy_str None = True"
| "falsy_str (Some s) = (s = [])"

subsection \<open>Rows\<close>

record course =
  c_id :: nat
  c_instructor_id :: nat
  c_category_id :: "nat option"
  c_is_deleted :: bool

record module_row =
  m_id :: nat
  m_course_id :: nat

record lesson =
  l_id :: nat
  l_module_id :: nat

text \<open>
  An element of a quiz's \<open>options\<close> array: a string, a number, or an object whose
  \<open>value\<close> field is given (\<open>None\<close> when the field is missing).
\<close>

datatype answer = AUndefined | ANull | ABool bool | ANum int | AStr string

datatype quiz_option = OptStr string | OptNum int | OptObj "answer option"

record quiz =
  q_id :: nat
  q_lesson_id :: nat
  q_question :: string
  q_answer :: string
  q_options :: "quiz_option list option"
  q_quiz_type :: string
  q_points :: int

record assignment =
  a_id :: nat
  a_lesson_id :: nat
  a_title :: string
  a_description :: "string option"
  a_due_date :: "nat option"
  a_max_points :: int
  a_allow_late_submission :: bool
  a_late_penalty_percent :: "int option"

record submission =
  s_id :: nat
  s_assignment_id :: nat
  s_student_id :: nat
  s_content :: "string option"
  s_file_path :: "string option"
  s_is_late :: "bool option"
  s_submitted_at :: nat
  s_grade :: jsnum
  s_feedback :: "string option"
  s_graded_at :: "nat option"
  s_graded_by :: "nat option"

record enrollment =
  e_user_id :: nat
  e_course_id :: nat
  e_progress :: jsnum
  e_completed :: bool
  e_completed_at :: "nat option"

record category =
  cat_id :: nat
  cat_name :: string

record db =
  courses :: "course list"
  modules :: "module_row list"
  lessons :: "lesson list"
  quizzes :: "quiz list"
  assignments :: "assignment list"
  submissions :: "submission list"
  enrollments :: "enrollment list"
  categories :: "category list"

section \<open>Ancestor chains\<close>

text \<open>
  The SQL joins of the models and controllers. A join row exists when every ancestor
  exists and the course is not soft-deleted; the controllers read \<open>rows[0]\<close>.
\<close>

definition getCourseById :: "db \<Rightarrow> nat \<Rightarrow> course option" where
  "getCourseById d cid = find (\<lambda>c. c_id c = cid \<and> \<not> c_is_deleted c) (courses d)"

definition getModuleWithCourse :: "db \<Rightarrow> nat \<Rightarrow> (module_row \<times> course) option" where
  "getModuleWithCourse d mid =
     (case find (\<lambda>m. m_id m = mid) (modules d) of
        None \<Rightarrow> None
      | Some m \<Rightarrow>
          (case find (\<lambda>c. c_id c = m_course_id m) (courses d) of
             None \<Rightarrow> None
           | Some c \<Rightarrow> if c_is_deleted c then None else Some (m, c)))"

definition getLessonWithCourseInfo :: "db \<Rightarrow> nat \<Rightarrow> (lesson \<times> course) option" where
  "getLessonWithCourseInfo d lid =
     (case find (\<lambda>l. l_id l = lid) (lessons d) of
        None \<Rightarrow> None
      | Some l \<Rightarrow>
          (case find (\<lambda>m. m_id m = l_module_id l) (modules d) of
             None \<Rightarrow> None
           | Some m \<Rightarrow>
               (case find (\<lambda>c. c_id c = m_course_id m) (courses d) of
                  None \<Rightarrow> None
                | Some c \<Rightarrow> if c_is_deleted c then None else Some (l, c))))"

definition getQuizById :: "db \<Rightarrow> nat \<Rightarrow> (quiz \<times> course) option" where
  "getQuizById d qid =
     (case find (\<lambda>q. q_id q = qid) (quizzes d) of
        None \<Rightarrow> None
      | Some q \<Rightarrow>
          (case getLessonWithCourseInfo d (q_lesson_id q) of
             None \<Rightarrow> None
           | Some (l, c) \<Rightarrow> Some (q, c)))"

definition assignment_with_course :: "db \<Rightarrow> nat \<Rightarrow> (assignment \<times> course) option" where
  "assignment_with_course d aid =
     (case find (\<lambda>a. a_id a = aid) (assignments d) of
        None \<Rightarrow> None
      | Some a \<Rightarrow>
          (case getLessonWithCourseInfo d (a_lesson_id a) of
             None \<Rightarrow> None
           | Some (l, c) \<Rightarrow> Some (a, c)))"

definition submission_with_assignment :: "db \<Rightarrow> nat \<Rightarrow> (submission \<times> assignment \<times> course) option" where
  "submission_with_assignment d sid =
     (case find (\<lambda>s. s_id s = sid) (submissions d) of
        None \<Rightarrow> None
      | Some s \<Rightarrow>
          (case assignment_with_course d (s_assignment_id s) of
             None \<Rightarrow> None
           | Some (a, c) \<Rightarrow> Some (s, a, c)))"

section \<open>Ownership gate\<close>

text \<open>
  Every create, update and delete controller of modules, lessons, quizzes and assignments,
  and the grading controller, loads the target's chain, answers 404 when it is missing and
  then runs the same test:
  \<^verbatim>\<open>if (user.role !== USER_ROLES.ADMIN && x.instructor_id !== user.id) throw new AppError(..., 403)\<close>
  The routes of the create controllers and of grading also carry the middleware
  \<^verbatim>\<open>authorize(USER_ROLES.INSTRUCTOR, USER_ROLES.ADMIN)\<close>.
\<close>

datatype action =
    CreateModule nat | UpdateModule nat | DeleteModule nat
  | CreateLesson nat | UpdateLesson nat | DeleteLesson nat
  | CreateQuiz nat | UpdateQuiz nat | DeleteQuiz nat
  | CreateAssignment nat | UpdateAssignment nat | DeleteAssignment nat
  | GradeSubmission nat


text \<open>\<open>Array.prototype.join\<close> on strings.\<close>

fun join :: "string list \<Rightarrow> string \<Rightarrow> string" where
  "join [] sep = []"
| "join [x] sep = x"
| "join (x # y # ys) sep = x @ sep @ join (y # ys) sep"



text \<open>The instructor id of the course the target belongs to, as each controller loads it.\<close>

fun chain_instructor_id :: "db \<Rightarrow> action \<Rightarrow> nat option" where
  "chain_instructor_id d (CreateModule course_id) = map_option c_instructor_id (getCourseById d course_id)"
| "chain_instructor_id d (UpdateModule i) = map_option (c_instructor_id \<circ> snd) (getModuleWithCourse d i)"
| "chain_instructor_id d (DeleteModule i) = map_option (c_instructor_id \<circ> snd) (getModuleWithCourse d i)"
| "chain_instructor_id d (CreateLesson module_id) = map_option (c_instructor_id \<circ> snd) (getModuleWithCourse d module_id)"
| "chain_instructor_id d (UpdateLesson i) = map_option (c_instructor_id \<circ> snd) (getLessonWithCourseInfo d i)"
| "chain_instructor_id d (DeleteLesson i) = map_option (c_instructor_id \<circ> snd) (getLessonWithCourseInfo d i)"
| "chain_instructor_id d (CreateQuiz lesson_id) = map_option (c_instructor_id \<circ> snd) (getLessonWithCourseInfo d lesson_id)"
| "chain_instructor_id d (UpdateQuiz i) = map_option (c_instructor_id \<circ> snd) (getQuizById d i)"
| "chain_instructor_id d (DeleteQuiz i) = map_option (c_instructor_id \<circ> snd) (getQuizById d i)"
| "chain_instructor_id d (CreateAssignment lesson_id) = map_option (c_instructor_id \<circ> snd) (getLessonWithCourseInfo d lesson_id)"
| "chain_instructor_id d (UpdateAssignment i) = map_option (c_instructor_id \<circ> snd) (assignment_with_course d i)"
| "chain_instructor_id d (DeleteAssignment i) = map_option (c_instructor_id \<circ> snd) (assignment_with_course d i)"
| "chain_instructor_id d (GradeSubmission i) = map_option (c_instructor_id \<circ> snd \<circ> snd) (submission_with_assignment d i)"

fun not_found_message :: "action \<Rightarrow> string" where
  "not_found_message (CreateModule _) = ''Course not found''"
| "not_found_message (UpdateModule _) = ''Module not found''"
| "not_found_message (DeleteModule _) = ''Module not found''"
| "not_found_message (CreateLesson _) = ''Module not found''"
| "not_found_message (UpdateLesson _) = ''Lesson not found''"
| "not_found_message (DeleteLesson _) = ''Lesson not found''"
| "not_found_message (CreateQuiz _) = ''Lesson not found''"
| "not_found_message (UpdateQuiz _) = ''Quiz not found''"
| "not_found_message (DeleteQuiz _) = ''Quiz not found''"
| "not_found_message (CreateAssignment _) = ''Lesson not found''"
| "not_found_message (UpdateAssignment _) = ''Assignment not found''"
| "not_found_message (DeleteAssignment _) = ''Assignment not found''"
| "not_found_message (GradeSubmission _) = ''Submission not found''"

text \<open>The inline test of the controllers.\<close>

definition owner_or_admin :: "principal \<Rightarrow> nat \<Rightarrow> string \<Rightarrow> js_error + unit" where
  "owner_or_admin user instructor_id msg =
     (if user_role user \<noteq> Admin \<and> instructor_id \<noteq> user_id user
      then Inl (AppError msg FORBIDDEN)
      else Inr ())"

fun denied_message :: "action \<Rightarrow> string" where
  "denied_message (CreateModule _) = ''Access denied. You can only add modules to your own courses.''"
| "denied_message (UpdateModule _) = ''Access denied. You can only update modules in your own courses.''"
| "denied_message (DeleteModule _) = ''Access denied. You can only delete modules from your own courses.''"
| "denied_message (CreateLesson _) = ''Access denied. You can only add lessons to your own modules.''"
| "denied_message (UpdateLesson _) = ''Access denied. You can only update lessons in your own courses.''"
| "denied_message (DeleteLesson _) = ''Access denied. You can only delete lessons from your own courses.''"
| "denied_message (CreateQuiz _) = ''Access denied. You can only add quizzes to your own lessons.''"
| "denied_message (CreateAssignment _) = ''Access denied. You can only add assignments to your own lessons.''"
| "denied_message _ = ''Access denied''"

definition controller_gate :: "db \<Rightarrow> principal \<Rightarrow> action \<Rightarrow> js_error + unit" where
  "controller_gate d user act =
     (case chain_instructor_id d act of
        None \<Rightarrow> Inl (AppError (not_found_message act) NOT_FOUND)
      | Some instructor_id \<Rightarrow> owner_or_admin user instructor_id (denied_message act))"


section \<open>Assignment grading\<close>

text \<open>
  \<open>gradeSubmissionController\<close>. The body's \<open>grade\<close> is a JSON number, \<open>null\<close> or
  absent. The late penalty is read from the submission's assignment,
  \<^verbatim>\<open>late_penalty_percent || 0\<close>, and applied to the grade of the request.
\<close>

record grade_response =
  gr_id :: nat
  gr_grade :: jsnum
  gr_feedback :: "string option"
  gr_graded_at :: "nat option"
  gr_graded_by :: "nat option"
  originalGrade :: jsnum
  finalGrade :: jsnum
  latePenaltyApplied :: "bool option"

definition late_penalty :: "assignment \<Rightarrow> int" where
  "late_penalty a = (case a_late_penalty_percent a of None \<Rightarrow> 0 | Some p \<Rightarrow> p)"

definition final_grade :: "submission \<Rightarrow> assignment \<Rightarrow> jsnum \<Rightarrow> jsnum" where
  "final_grade s a grade =
     (if truthy (s_is_late s)
      then js_mul grade (1 - of_int (late_penalty a) / 100)
      else grade)"

definition gradeSubmissionController ::
  "db \<Rightarrow> nat \<Rightarrow> principal \<Rightarrow> nat \<Rightarrow> jsnum \<Rightarrow> string option \<Rightarrow> js_error + (db \<times> grade_response)" where
  "gradeSubmissionController d now user sid grade feedback =
     (case submission_with_assignment d sid of
        None \<Rightarrow> Inl (AppError ''Submission not found'' NOT_FOUND)
      | Some (s, a, c) \<Rightarrow>
          (case owner_or_admin user (c_instructor_id c) ''Access denied'' of
             Inl e \<Rightarrow> Inl e
           | Inr _ \<Rightarrow>
               if js_lt grade (JNum 0) \<or> js_gt grade (JNum (of_int (a_max_points a)))
               then Inl (AppError (''Grade must be between 0 and '' @ show_int (a_max_points a)) BAD_REQUEST)
               else
                 (let fg = final_grade s a grade;
                      d' = d\<lparr>submissions :=
                             map (\<lambda>r. if s_id r = sid
                                       then r\<lparr>s_grade := pg_param fg,
                                              s_feedback := map_option trim feedback,
                                              s_graded_at := Some now,
                                              s_graded_by := Some (user_id user)\<rparr>
                                       else r)
                                 (submissions d)\<rparr>
                  in Inr (d',
                          \<lparr>gr_id = sid, gr_grade = pg_param fg,
                           gr_feedback = map_option trim feedback,
                           gr_graded_at = Some now, gr_graded_by = Some (user_id user),
                           originalGrade = grade, finalGrade = fg,
                           latePenaltyApplied = s_is_late s\<rparr>))))"


section \<open>Submissions\<close>

text \<open>\<open>isDatePast(date)\<close> is \<^verbatim>\<open>new Date(date) < new Date()\<close>; times are milliseconds.\<close>

definition isDatePast :: "nat \<Rightarrow> nat \<Rightarrow> bool" where
  "isDatePast now date = (date < now)"

text \<open>\<^verbatim>\<open>due_date && isDatePast(due_date)\<close>: \<open>null\<close> when there is no due date.\<close>

definition compute_isLate :: "nat \<Rightarrow> nat option \<Rightarrow> bool option" where
  "compute_isLate now due_date = (case due_date of None \<Rightarrow> None | Some dd \<Rightarrow> Some (isDatePast now dd))"

definition existingSubmission :: "db \<Rightarrow> nat \<Rightarrow> nat \<Rightarrow> submission list" where
  "existingSubmission d assignment_id userId =
     filter (\<lambda>s. s_assignment_id s = assignment_id \<and> s_student_id s = userId) (submissions d)"

text \<open>The serial primary key of an inserted row.\<close>

definition next_submission_id :: "db \<Rightarrow> nat" where
  "next_submission_id d = Suc (fold max (map s_id (submissions d)) 0)"

definition submitAssignmentController ::
  "db \<Rightarrow> nat \<Rightarrow> nat \<Rightarrow> nat \<Rightarrow> string option \<Rightarrow> string option \<Rightarrow> js_error + (db \<times> submission)" where
  "submitAssignmentController d now userId assignment_id content file_path =
     (case assignment_with_course d assignment_id of
        None \<Rightarrow> Inl (AppError ''Assignment not found'' NOT_FOUND)
      | Some (a, c) \<Rightarrow>
          (let isLate = compute_isLate now (a_due_date a) in
           if truthy isLate \<and> \<not> a_allow_late_submission a
           then Inl (AppError ''Assignment submission deadline has passed'' BAD_REQUEST)
           else if existingSubmission d assignment_id userId \<noteq> []
           then Inl (AppError ''You have already submitted this assignment'' CONFLICT)
           else if falsy_str content \<and> falsy_str file_path
           then Inl (AppError ''Either content or file is required for submission'' BAD_REQUEST)
           else
             (let row = \<lparr>s_id = next_submission_id d, s_assignment_id = assignment_id,
                         s_student_id = userId, s_content = map_option trim content,
                         s_file_path = file_path, s_is_late = isLate, s_submitted_at = now,
                         s_grade = JNull, s_feedback = None, s_graded_at = None,
                         s_graded_by = None\<rparr>
              in Inr (d\<lparr>submissions := submissions d @ [row]\<rparr>, row))))"


text \<open>
  \<open>updateAssignmentController\<close>. A body field is absent (\<open>None\<close>) or given; \<open>description\<close>,
  \<open>due_date\<close> and \<open>late_penalty_percent\<close> can also be given as \<open>null\<close>.
\<close>

record assignment_body =
  b_title :: "string option"
  b_description :: "string option option"
  b_due_date :: "nat option option"
  b_max_points :: "int option"
  b_allow_late_submission :: "bool option"
  b_late_penalty_percent :: "int option option"

definition no_updates :: "assignment_body \<Rightarrow> bool" where
  "no_updates b =
     (falsy_str (b_title b) \<and> b_description b = None \<and> b_due_date b = None
      \<and> (b_max_points b = None \<or> b_max_points b = Some 0)
      \<and> b_allow_late_submission b = None \<and> b_late_penalty_percent b = None)"

definition apply_updates :: "assignment_body \<Rightarrow> assignment \<Rightarrow> assignment" where
  "apply_updates b a =
     a\<lparr>a_title := (case b_title b of None \<Rightarrow> a_title a
                   | Some t \<Rightarrow> if t = [] then a_title a else trim t),
       a_description := (case b_description b of None \<Rightarrow> a_description a | Some x \<Rightarrow> map_option trim x),
       a_due_date := (case b_due_date b of None \<Rightarrow> a_due_date a | Some x \<Rightarrow> x),
       a_max_points := (case b_max_points b of None \<Rightarrow> a_max_points a
                        | Some x \<Rightarrow> if x = 0 then a_max_points a else x),
       a_allow_late_submission := (case b_allow_late_submission b of None \<Rightarrow> a_allow_late_submission a | Some x \<Rightarrow> x),
       a_late_penalty_percent := (case b_late_penalty_percent b of None \<Rightarrow> a_late_penalty_percent a | Some x \<Rightarrow> x)\<rparr>"

definition updateAssignmentController ::
  "db \<Rightarrow> nat \<Rightarrow> principal \<Rightarrow> nat \<Rightarrow> assignment_body \<Rightarrow> js_error + (db \<times> assignment)" where
  "updateAssignmentController d now user aid b =
     (case assignment_with_course d aid of
        None \<Rightarrow> Inl (AppError ''Assignment not found'' NOT_FOUND)
      | Some (a, c) \<Rightarrow>
          (case owner_or_admin user (c_instructor_id c) ''Access denied'' of
             Inl e \<Rightarrow> Inl e
           | Inr _ \<Rightarrow>
               if (case b_due_date b of Some (Some dd) \<Rightarrow> isDatePast now dd | _ \<Rightarrow> False)
               then Inl (AppError ''Due date cannot be in the past'' BAD_REQUEST)
               else if no_updates b
               then Inl (AppError ''No valid fields to update'' BAD_REQUEST)
               else Inr (d\<lparr>assignments := map (\<lambda>r. if a_id r = aid then apply_updates b r else r) (assignments d)\<rparr>,
                         apply_updates b a)))"

section \<open>Quizzes\<close>

text \<open>
  \<open>getQuizzesByLesson\<close> selects the lesson's quizzes with their answers, ordered by id;
  \<open>getQuizQuestionsForStudent\<close> selects the same rows without the \<open>answer\<close> column.
  The \<open>options\<close> column is read as the parsed array.
\<close>

definition getQuizzesByLesson :: "db \<Rightarrow> nat \<Rightarrow> quiz list" where
  "getQuizzesByLesson d lessonId = sort_key q_id (filter (\<lambda>q. q_lesson_id q = lessonId) (quizzes d))"

record quiz_question =
  qq_id :: nat
  qq_question :: string
  qq_options :: "quiz_option list option"
  qq_quiz_type :: string
  qq_points :: int

definition question_only :: "quiz \<Rightarrow> quiz_question" where
  "question_only q =
     \<lparr>qq_id = q_id q, qq_question = q_question q, qq_options = q_options q,
      qq_quiz_type = q_quiz_type q, qq_points = q_points q\<rparr>"

definition getQuizQuestionsForStudent :: "db \<Rightarrow> nat \<Rightarrow> quiz_question list" where
  "getQuizQuestionsForStudent d lessonId = map question_only (getQuizzesByLesson d lessonId)"

text \<open>The \<open>quizzes\<close> field of the response of \<open>getQuizzesByLessonController\<close>.\<close>

datatype quiz_listing = QuestionsOnly "quiz_question list" | FullQuizData "quiz list"

definition getQuizzesByLessonController ::
  "db \<Rightarrow> principal \<Rightarrow> nat \<Rightarrow> string option \<Rightarrow> js_error + quiz_listing" where
  "getQuizzesByLessonController d user lesson_id forStudent =
     (case getLessonWithCourseInfo d lesson_id of
        None \<Rightarrow> Inl (AppError ''Lesson not found'' NOT_FOUND)
      | Some (l, c) \<Rightarrow>
          if forStudent = Some ''true'' \<and> user_role user = Student
          then Inr (QuestionsOnly (getQuizQuestionsForStudent d lesson_id))
          else if user_role user = Instructor \<and> c_instructor_id c \<noteq> user_id user
          then Inl (AppError ''Access denied'' FORBIDDEN)
          else Inr (FullQuizData (getQuizzesByLesson d lesson_id)))"

text \<open>The stored answers a listing carries.\<close>

fun listed_answers :: "quiz_listing \<Rightarrow> string list" where
  "listed_answers (QuestionsOnly qs) = []"
| "listed_answers (FullQuizData qs) = map q_answer qs"

subsection \<open>Validation of submitted answers\<close>

text \<open>
  The submitted \<open>answers\<close> object maps a quiz id to a JSON primitive; a missing key reads
  as \<open>undefined\<close>.
\<close>

fun answer_truthy :: "answer \<Rightarrow> bool" where
  "answer_truthy AUndefined = False"
| "answer_truthy ANull = False"
| "answer_truthy (ABool b) = b"
| "answer_truthy (ANum n) = (n \<noteq> 0)"
| "answer_truthy (AStr s) = (s \<noteq> [])"

text \<open>
  \<^verbatim>\<open>opt.value || opt\<close>: a string or number option is itself; an object option is its
  truthy \<open>value\<close>, and otherwise the object, which equals no submitted primitive (\<open>None\<close>).
\<close>

fun valid_option :: "quiz_option \<Rightarrow> answer option" where
  "valid_option (OptStr s) = Some (AStr s)"
| "valid_option (OptNum n) = Some (ANum n)"
| "valid_option (OptObj None) = None"
| "valid_option (OptObj (Some v)) = (if answer_truthy v then Some v else None)"

definition validOptions :: "quiz_option list \<Rightarrow> answer option list" where
  "validOptions opts = map valid_option opts"

definition question_excerpt :: "quiz \<Rightarrow> string" where
  "question_excerpt quiz = [CHR 0x22] @ take 50 (q_question quiz) @ [CHR 0x22] @ ''...''"

fun is_blank_text :: "answer \<Rightarrow> bool" where
  "is_blank_text (AStr s) = (trim s = [])"
| "is_blank_text _ = True"

definition validate_answer :: "(nat \<Rightarrow> answer) \<Rightarrow> quiz \<Rightarrow> string list" where
  "validate_answer answers quiz =
     (let userAnswer = answers (q_id quiz) in
      if userAnswer = AUndefined \<or> userAnswer = ANull \<or> userAnswer = AStr []
      then [''Answer required for question: '' @ question_excerpt quiz]
      else if q_quiz_type quiz = ''true_false''
      then (if userAnswer \<notin> set [AStr ''true'', AStr ''false'', ABool True, ABool False]
            then [''Invalid true/false answer for question: '' @ question_excerpt quiz]
            else [])
      else if q_quiz_type quiz = ''multiple_choice''
      then (case q_options quiz of
              None \<Rightarrow> []
            | Some opts \<Rightarrow>
                if opts \<noteq> [] \<and> Some userAnswer \<notin> set (validOptions opts)
                then [''Invalid option selected for question: '' @ question_excerpt quiz]
                else [])
      else if q_quiz_type quiz = ''text''
      then (if is_blank_text userAnswer
            then [''Text answer required for question: '' @ question_excerpt quiz]
            else [])
      else [])"

primrec validateQuizAnswers :: "(nat \<Rightarrow> answer) \<Rightarrow> quiz list \<Rightarrow> string list" where
  "validateQuizAnswers answers [] = []"
| "validateQuizAnswers answers (quiz # rest) = validate_answer answers quiz @ validateQuizAnswers answers rest"

subsection \<open>Grading\<close>

text \<open>\<open>toString()\<close> of a submitted primitive (the code calls it on neither \<open>undefined\<close> nor \<open>null\<close>).\<close>

fun answer_toString :: "answer \<Rightarrow> string" where
  "answer_toString (AStr s) = s"
| "answer_toString (ABool b) = (if b then ''true'' else ''false'')"
| "answer_toString (ANum n) = show_int n"
| "answer_toString AUndefined = ''undefined''"
| "answer_toString ANull = ''null''"

definition check_answer :: "quiz \<Rightarrow> answer \<Rightarrow> bool" where
  "check_answer quiz userAnswer =
     (if userAnswer \<noteq> AUndefined \<and> userAnswer \<noteq> ANull
      then
        (if q_quiz_type quiz = ''multiple_choice'' \<or> q_quiz_type quiz = ''true_false''
         then toLowerCase (answer_toString userAnswer) = toLowerCase (q_answer quiz)
         else if q_quiz_type quiz = ''text''
         then trim (toLowerCase (answer_toString userAnswer)) = trim (toLowerCase (q_answer quiz))
         else answer_toString userAnswer = q_answer quiz)
      else False)"

record quiz_result =
  r_quizId :: nat
  r_question :: string
  r_userAnswer :: answer
  r_correctAnswer :: string
  r_isCorrect :: bool
  r_points :: int
  r_maxPoints :: int

text \<open>The \<open>for\<close> loop of \<open>submitQuizAnswers\<close> over \<open>totalPoints\<close>, \<open>earnedPoints\<close> and \<open>results\<close>.\<close>

fun grade_loop ::
  "(nat \<Rightarrow> answer) \<Rightarrow> quiz list \<Rightarrow> int \<times> int \<times> quiz_result list \<Rightarrow> int \<times> int \<times> quiz_result list" where
  "grade_loop answers [] acc = acc"
| "grade_loop answers (quiz # rest) (totalPoints, earnedPoints, results) =
     (let userAnswer = answers (q_id quiz);
          isCorrect = check_answer quiz userAnswer;
          points = (if isCorrect then q_points quiz else 0)
      in grade_loop answers rest
           (totalPoints + q_points quiz,
            (if isCorrect then earnedPoints + points else earnedPoints),
            results @ [\<lparr>r_quizId = q_id quiz, r_question = q_question quiz,
                        r_userAnswer = userAnswer, r_correctAnswer = q_answer quiz,
                        r_isCorrect = isCorrect, r_points = points, r_maxPoints = q_points quiz\<rparr>]))"

text \<open>\<open>Math.round\<close>: the nearest integer, a half rounded up.\<close>

definition Math_round :: "rat \<Rightarrow> int" where
  "Math_round x = \<lfloor>x + 1 / 2\<rfloor>"

record grading =
  totalQuestions :: nat
  totalPoints :: int
  earnedPoints :: int
  score :: int
  results :: "quiz_result list"

definition submitQuizAnswers :: "db \<Rightarrow> nat \<Rightarrow> (nat \<Rightarrow> answer) \<Rightarrow> grading" where
  "submitQuizAnswers d lessonId answers =
     (let qs = getQuizzesByLesson d lessonId in
      case grade_loop answers qs (0, 0, []) of
        (tp, ep, res) \<Rightarrow>
          \<lparr>totalQuestions = length qs, totalPoints = tp, earnedPoints = ep,
           score = (if tp > 0 then Math_round (of_int ep / of_int tp * 100) else 0),
           results = res\<rparr>)"

definition submitQuizAnswersController ::
  "db \<Rightarrow> principal \<Rightarrow> nat \<Rightarrow> (nat \<Rightarrow> answer) \<Rightarrow> js_error + grading" where
  "submitQuizAnswersController d user lesson_id answers =
     (if user_role user \<noteq> Student
      then Inl (AppError ''Only students can submit quiz answers'' FORBIDDEN)
      else
        (case getLessonWithCourseInfo d lesson_id of
           None \<Rightarrow> Inl (AppError ''Lesson not found'' NOT_FOUND)
         | Some _ \<Rightarrow>
             (let qs = getQuizzesByLesson d lesson_id in
              if qs = []
              then Inl (AppError ''No quizzes found for this lesson'' NOT_FOUND)
              else
                (let validationErrors = validateQuizAnswers answers qs in
                 if validationErrors \<noteq> []
                 then Inl (AppError (join validationErrors '', '') BAD_REQUEST)
                 else Inr (submitQuizAnswers d lesson_id answers)))))"

section \<open>Enrollment progress\<close>

text \<open>\<open>getEnrollmentByUserAndCourse\<close> joins the enrollment with its course.\<close>

definition getEnrollmentByUserAndCourse :: "db \<Rightarrow> nat \<Rightarrow> nat \<Rightarrow> enrollment option" where
  "getEnrollmentByUserAndCourse d userId courseId =
     find (\<lambda>e. e_user_id e = userId \<and> e_course_id e = courseId
               \<and> list_ex (\<lambda>c. c_id c = courseId) (courses d))
          (enrollments d)"

definition updateEnrollmentProgress :: "db \<Rightarrow> nat \<Rightarrow> nat \<Rightarrow> nat \<Rightarrow> jsnum \<Rightarrow> db \<times> enrollment option" where
  "updateEnrollmentProgress d now userId courseId progress =
     (let completed = js_ge progress (JNum 100);
          completedAt = (if completed then Some now else None);
          upd = (\<lambda>e. if e_user_id e = userId \<and> e_course_id e = courseId
                      then e\<lparr>e_progress := pg_param progress, e_completed := completed,
                             e_completed_at := completedAt\<rparr>
                      else e);
          d' = d\<lparr>enrollments := map upd (enrollments d)\<rparr>
      in (d', find (\<lambda>e. e_user_id e = userId \<and> e_course_id e = courseId) (enrollments d')))"

definition updateProgress :: "db \<Rightarrow> nat \<Rightarrow> nat \<Rightarrow> nat \<Rightarrow> jsnum \<Rightarrow> js_error + (db \<times> enrollment option)" where
  "updateProgress d now userId course_id progress =
     (if js_lt progress (JNum 0) \<or> js_gt progress (JNum 100)
      then Inl (AppError ''Progress must be between 0 and 100'' BAD_REQUEST)
      else
        (case getEnrollmentByUserAndCourse d userId course_id of
           None \<Rightarrow> Inl (AppError ''You are not enrolled in this course'' NOT_FOUND)
         | Some _ \<Rightarrow> Inr (updateEnrollmentProgress d now userId course_id progress)))"

section \<open>Categories\<close>

definition courseCount :: "db \<Rightarrow> nat \<Rightarrow> nat" where
  "courseCount d cid = length (filter (\<lambda>c. c_category_id c = Some cid \<and> \<not> c_is_deleted c) (courses d))"

text \<open>\<open>deleteCategory\<close> throws, or deletes and returns the deleted id (\<open>null\<close> when no row matched).\<close>

definition deleteCategory :: "db \<Rightarrow> nat \<Rightarrow> js_error + (db \<times> nat option)" where
  "deleteCategory d cid =
     (if courseCount d cid > 0
      then Inl (Error (''Cannot delete category. It has '' @ show_nat (courseCount d cid) @ '' associated courses.''))
      else Inr (d\<lparr>categories := filter (\<lambda>k. cat_id k \<noteq> cid) (categories d)\<rparr>,
                map_option cat_id (find (\<lambda>k. cat_id k = cid) (categories d))))"

text \<open>The \<open>catch\<close> block of \<open>deleteCategoryController\<close>.\<close>

definition catch_associated :: "js_error \<Rightarrow> js_error" where
  "catch_associated error =
     (if str_includes (message error) ''associated courses''
      then AppError (message error) CONFLICT
      else error)"

definition deleteCategoryController :: "db \<Rightarrow> nat \<Rightarrow> js_error + db" where
  "deleteCategoryController d cid =
     (case deleteCategory d cid of
        Inl error \<Rightarrow> Inl (catch_associated error)
      | Inr (d', deletedCategory) \<Rightarrow>
          (case deletedCategory of
             None \<Rightarrow> Inl (catch_associated (AppError ''Category not found'' NOT_FOUND))
           | Some _ \<Rightarrow> Inr d'))"

section \<open>Reading a controller's outcome\<close>



text \<open>At most one submission for each pair of assignment and student.\<close>

definition one_submission_per_pair :: "db \<Rightarrow> bool" where
  "one_submission_per_pair d = distinct (map (\<lambda>s. (s_assignment_id s, s_student_id s)) (submissions d))"

section \<open>A sample store\<close>

text \<open>
  Course 1 belongs to instructor 10 and course 2 to instructor 11. Assignment 1 (due at
  time 100, late work accepted at a penalty of 10 percent) and assignment 2 (due at time
  100, no late work) hang under lesson 1 of course 1. Student 20 handed in assignment 1
  late (submission 1) and assignment 2 in time (submission 2).
\<close>

definition ex_quiz1 :: quiz where
  "ex_quiz1 = \<lparr>q_id = 1, q_lesson_id = 1, q_question = ''What is 2 + 2?'', q_answer = ''4'',
               q_options = Some [OptStr ''3'', OptStr ''4''], q_quiz_type = ''multiple_choice'',
               q_points = 2\<rparr>"

definition ex_quiz2 :: quiz where
  "ex_quiz2 = \<lparr>q_id = 2, q_lesson_id = 1, q_question = ''Is the sky blue?'', q_answer = ''true'',
               q_options = None, q_quiz_type = ''true_false'', q_points = 3\<rparr>"

definition ex_quiz3 :: quiz where
  "ex_quiz3 = \<lparr>q_id = 3, q_lesson_id = 2, q_question = ''Name the capital of France'', q_answer = ''Paris'',
               q_options = None, q_quiz_type = ''text'', q_points = 1\<rparr>"

definition ex_quiz4 :: quiz where
  "ex_quiz4 = \<lparr>q_id = 4, q_lesson_id = 2, q_question = ''Is water wet?'', q_answer = ''true'',
               q_options = None, q_quiz_type = ''true_false'', q_points = - 1\<rparr>"

definition ex_assignment1 :: assignment where
  "ex_assignment1 = \<lparr>a_id = 1, a_lesson_id = 1, a_title = ''Essay'', a_description = None,
                     a_due_date = Some 100, a_max_points = 100, a_allow_late_submission = True,
                     a_late_penalty_percent = Some 10\<rparr>"

definition ex_assignment2 :: assignment where
  "ex_assignment2 = \<lparr>a_id = 2, a_lesson_id = 1, a_title = ''Report'', a_description = None,
                     a_due_date = Some 100, a_max_points = 100, a_allow_late_submission = False,
                     a_late_penalty_percent = Some 10\<rparr>"

definition ex_submission1 :: submission where
  "ex_submission1 = \<lparr>s_id = 1, s_assignment_id = 1, s_student_id = 20, s_content = Some ''essay'',
                     s_file_path = None, s_is_late = Some True, s_submitted_at = 120,
                     s_grade = JNull, s_feedback = None, s_graded_at = None, s_graded_by = None\<rparr>"

definition ex_submission2 :: submission where
  "ex_submission2 = \<lparr>s_id = 2, s_assignment_id = 2, s_student_id = 20, s_content = Some ''report'',
                     s_file_path = None, s_is_late = Some False, s_submitted_at = 60,
                     s_grade = JNull, s_feedback = None, s_graded_at = None, s_graded_by = None\<rparr>"

definition ex_course1 :: course where
  "ex_course1 = \<lparr>c_id = 1, c_instructor_id = 10, c_category_id = Some 5, c_is_deleted = False\<rparr>"

definition ex_course2 :: course where
  "ex_course2 = \<lparr>c_id = 2, c_instructor_id = 11, c_category_id = None, c_is_deleted = False\<rparr>"

definition ex_enrollment :: enrollment where
  "ex_enrollment = \<lparr>e_user_id = 20, e_course_id = 1, e_progress = JNum 40, e_completed = False,
                    e_completed_at = None\<rparr>"

definition ex_db :: db where
  "ex_db = \<lparr>courses = [ex_course1, ex_course2],
            modules = [\<lparr>m_id = 1, m_course_id = 1\<rparr>],
            lessons = [\<lparr>l_id = 1, l_module_id = 1\<rparr>, \<lparr>l_id = 2, l_module_id = 1\<rparr>,
                       \<lparr>l_id = 3, l_module_id = 1\<rparr>],
            quizzes = [ex_quiz1, ex_quiz2, ex_quiz3, ex_quiz4],
            assignments = [ex_assignment1, ex_assignment2],
            submissions = [ex_submission1, ex_submission2],
            enrollments = [ex_enrollment],
            categories = [\<lparr>cat_id = 5, cat_name = ''Mathematics''\<rparr>, \<lparr>cat_id = 6, cat_name = ''History''\<rparr>]\<rparr>"




definition ex_student :: principal where
  "ex_student = \<lparr>user_id = 20, user_role = Student\<rparr>"

text \<open>Student 21 hands in assignment 1 at time 50, before it is due.\<close>

definition ex_submission3 :: submission where
  "ex_submission3 = \<lparr>s_id = 3, s_assignment_id = 1, s_student_id = 21, s_content = Some ''draft'',
                     s_file_path = None, s_is_late = Some False, s_submitted_at = 50,
                     s_grade = JNull, s_feedback = None, s_graded_at = None, s_graded_by = None\<rparr>"

definition ex_db_submitted :: db where
  "ex_db_submitted = ex_db\<lparr>submissions := [ex_submission1, ex_submission2, ex_submission3]\<rparr>"

text \<open>The answers of a student who gets every quiz of lesson 1 and of lesson 2 right.\<close>

definition ex_answers :: "nat \<Rightarrow> answer" where
  "ex_answers i =
     (if i = 1 then AStr ''4'' else if i = 2 then ABool True else if i = 3 then AStr '' paris ''
      else if i = 4 then ABool True else AUndefined)"

text \<open>The same student picking an option that quiz 1 does not offer.\<close>

definition ex_answers_outside :: "nat \<Rightarrow> answer" where
  "ex_answers_outside i = (if i = 1 then AStr ''5'' else ex_answers i)"


text \<open>The enrollment row after progress \<open>p\<close> was written at time \<open>now\<close>.\<close>

definition progressed :: "jsnum \<Rightarrow> nat \<Rightarrow> enrollment \<Rightarrow> enrollment" where
  "progressed p now e =
     e\<lparr>e_progress := pg_param p, e_completed := js_ge p (JNum 100),
       e_completed_at := (if js_ge p (JNum 100) then Some now else None)\<rparr>"

section \<open>Properties\<close>

subsection \<open>Lookups after an update\<close>






subsection \<open>Late penalty\<close>








subsection \<open>Ownership gate\<close>








text \<open>The full controllers open with the gate.\<close>

lemma grade_gate:
  "controller_gate d user (GradeSubmission sid) = Inl e
   \<Longrightarrow> gradeSubmissionController d now user sid grade fb = Inl e"
  by (auto simp: controller_gate_def gradeSubmissionController_def split: option.splits sum.splits)

lemma update_assignment_gate:
  "controller_gate d user (UpdateAssignment aid) = Inl e
   \<Longrightarrow> updateAssignmentController d now user aid b = Inl e"
  by (auto simp: controller_gate_def updateAssignmentController_def split: option.splits sum.splits)

subsection \<open>The grade-range guard\<close>







subsection \<open>Enrollment progress\<close>

lemma find_map_same_pred:
  assumes "\<And>x. P (f x) = P x"
  shows "find P (map f xs) = map_option f (find P xs)"
  using assms by (induction xs) auto

lemma find_cong_list: "(\<And>x. x \<in> set xs \<Longrightarrow> P x = Q x) \<Longrightarrow> find P xs = find Q xs"
  by (induction xs) auto

lemma enrollment_found:
  assumes "getEnrollmentByUserAndCourse d u c = Some e"
  shows "list_ex (\<lambda>k. c_id k = c) (courses d)
       \<and> find (\<lambda>e. e_user_id e = u \<and> e_course_id e = c) (enrollments d) = Some e"
proof -
  let ?P = "\<lambda>e. e_user_id e = u \<and> e_course_id e = c \<and> list_ex (\<lambda>k. c_id k = c) (courses d)"
  from assms have f: "find ?P (enrollments d) = Some e"
    by (simp add: getEnrollmentByUserAndCourse_def)
  then have ex: "list_ex (\<lambda>k. c_id k = c) (courses d)"
    by (auto simp: find_Some_iff)
  then have "find ?P (enrollments d) = find (\<lambda>e. e_user_id e = u \<and> e_course_id e = c) (enrollments d)"
    by (intro find_cong_list) simp
  with f ex show ?thesis by simp
qed

lemma progress_written:
  assumes enr: "getEnrollmentByUserAndCourse d u c = Some e"
    and guard: "\<not> js_lt p (JNum 0)" "\<not> js_gt p (JNum 100)"
  shows "\<exists>d'. updateProgress d now u c p = Inr (d', Some (progressed p now e))
            \<and> getEnrollmentByUserAndCourse d' u c = Some (progressed p now e)"
proof -
  let ?P = "\<lambda>e. e_user_id e = u \<and> e_course_id e = c"
  let ?upd = "\<lambda>e. if ?P e then progressed p now e else e"
  let ?d' = "d\<lparr>enrollments := map ?upd (enrollments d)\<rparr>"
  from enrollment_found[OF enr] have ex: "list_ex (\<lambda>k. c_id k = c) (courses d)"
    and f: "find ?P (enrollments d) = Some e" by simp_all
  from f have Pe: "?P e" by (auto simp: find_Some_iff)
  have keep: "\<And>x. ?P (?upd x) = ?P x" by (simp add: progressed_def)
  have f': "find ?P (map ?upd (enrollments d)) = Some (progressed p now e)"
    using find_map_same_pred[of ?P ?upd "enrollments d", OF keep] f Pe by simp
  have upd_eq: "updateEnrollmentProgress d now u c p = (?d', find ?P (enrollments ?d'))"
    unfolding updateEnrollmentProgress_def Let_def progressed_def
    by (cases "js_ge p (JNum 100)") simp_all
  have sel: "enrollments ?d' = map ?upd (enrollments d)" by simp
  have upd: "updateEnrollmentProgress d now u c p = (?d', Some (progressed p now e))"
    by (simp only: upd_eq sel f')
  have run: "updateProgress d now u c p = Inr (?d', Some (progressed p now e))"
    using guard by (simp add: updateProgress_def enr upd)
  have "find (\<lambda>e. ?P e \<and> list_ex (\<lambda>k. c_id k = c) (courses d)) (map ?upd (enrollments d))
        = find ?P (map ?upd (enrollments d))"
    using ex by (intro find_cong_list) simp
  with f' have "getEnrollmentByUserAndCourse ?d' u c = Some (progressed p now e)"
    by (simp add: getEnrollmentByUserAndCourse_def)
  with run show ?thesis by blast
qed

lemma progress_guard: "0 \<le> p \<Longrightarrow> p \<le> 100 \<Longrightarrow> \<not> js_lt (JNum p) (JNum 0) \<and> \<not> js_gt (JNum p) (JNum 100)"
  by (simp add: js_lt_def js_gt_def)

text \<open>
  Claim C5. For an existing enrollment and a progress \<open>p\<close> between 0 and 100,
  \<open>updateProgress\<close> stores \<open>p\<close> with \<open>completed = (p \<ge> 100)\<close> and a
  completion time that is the time of the write when completed and \<open>NULL\<close> otherwise;
  a later write below 100 stores \<open>completed = false\<close> and clears the completion time.
\<close>

theorem C5_progress_sets_completion:
  assumes enr: "getEnrollmentByUserAndCourse d u c = Some e"
    and range1: "0 \<le> p \<and> p \<le> 100"
    and range2: "0 \<le> q \<and> q < 100"
  shows "\<exists>d1 e1 d2 e2.
           updateProgress d t1 u c (JNum p) = Inr (d1, Some e1)
         \<and> getEnrollmentByUserAndCourse d1 u c = Some e1
         \<and> e_progress e1 = JNum p
         \<and> e_completed e1 = (p \<ge> 100)
         \<and> e_completed_at e1 = (if p \<ge> 100 then Some t1 else None)
         \<and> updateProgress d1 t2 u c (JNum q) = Inr (d2, Some e2)
         \<and> getEnrollmentByUserAndCourse d2 u c = Some e2
         \<and> e_completed e2 = False
         \<and> e_completed_at e2 = None"
proof -
  from progress_written[OF enr, of "JNum p" t1] progress_guard[of p] range1
  obtain d1 where
    1: "updateProgress d t1 u c (JNum p) = Inr (d1, Some (progressed (JNum p) t1 e))"
    and s1: "getEnrollmentByUserAndCourse d1 u c = Some (progressed (JNum p) t1 e)"
    by blast
  from progress_written[OF s1, of "JNum q" t2] progress_guard[of q] range2
  obtain d2 where
    2: "updateProgress d1 t2 u c (JNum q) = Inr (d2, Some (progressed (JNum q) t2 (progressed (JNum p) t1 e)))"
    and s2: "getEnrollmentByUserAndCourse d2 u c = Some (progressed (JNum q) t2 (progressed (JNum p) t1 e))"
    by auto
  have a: "e_progress (progressed (JNum p) t1 e) = JNum p"
    "e_completed (progressed (JNum p) t1 e) = (p \<ge> 100)"
    "e_completed_at (progressed (JNum p) t1 e) = (if p \<ge> 100 then Some t1 else None)"
    by (simp_all add: progressed_def js_ge_def)
  have b: "e_completed (progressed (JNum q) t2 (progressed (JNum p) t1 e)) = False"
    "e_completed_at (progressed (JNum q) t2 (progressed (JNum p) t1 e)) = None"
    using range2 by (simp_all add: progressed_def js_ge_def)
  from 1 s1 2 s2 a b show ?thesis by blast
qed

lemma ex_enrolled: "getEnrollmentByUserAndCourse ex_db 20 1 = Some ex_enrollment"
  by (simp add: getEnrollmentByUserAndCourse_def ex_db_def ex_enrollment_def ex_course1_def)

text \<open>Student 20 reaches 100 in course 1 at time 700 and is set back to 50 at time 800.\<close>

theorem C5_progress_sets_completion_witness:
  "\<exists>d1 e1 d2 e2.
      updateProgress ex_db 700 20 1 (JNum 100) = Inr (d1, Some e1)
    \<and> getEnrollmentByUserAndCourse d1 20 1 = Some e1
    \<and> e_progress e1 = JNum 100
    \<and> e_completed e1 = True
    \<and> e_completed_at e1 = Some 700
    \<and> updateProgress d1 800 20 1 (JNum 50) = Inr (d2, Some e2)
    \<and> getEnrollmentByUserAndCourse d2 20 1 = Some e2
    \<and> e_completed e2 = False
    \<and> e_completed_at e2 = None"
proof -
  have r1: "(0::rat) \<le> 100 \<and> (100::rat) \<le> 100" by simp
  have r2: "(0::rat) \<le> 50 \<and> (50::rat) < 100" by simp
  have e1: "((100::rat) \<le> 100) = True" by simp
  have e2: "(if True then Some (700::nat) else None) = Some 700" by simp
  from C5_progress_sets_completion[OF ex_enrolled r1 r2, of 700 800, unfolded e1 e2]
  show ?thesis .
qed

subsection \<open>Deleting a category\<close>

lemma associated_message:
  "str_includes (''Cannot delete category. It has '' @ show_nat n @ '' associated courses.'') ''associated courses''"
proof -
  have "''Cannot delete category. It has '' @ show_nat n @ '' associated courses.''
        = (''Cannot delete category. It has '' @ show_nat n @ '' '') @ ''associated courses'' @ ''.''"
    by simp
  then show ?thesis
    unfolding str_includes_def sublist_def by blast
qed

lemma not_found_message_kept:
  "catch_associated (AppError ''Category not found'' NOT_FOUND) = AppError ''Category not found'' NOT_FOUND"
proof -
  have "\<not> sublist ''associated courses'' ''Category not found''"
    by code_simp
  then show ?thesis
    by (simp add: catch_associated_def str_includes_def)
qed

lemma delete_blocked:
  assumes "courseCount d cid > 0"
  shows "deleteCategoryController d cid
         = Inl (AppError (''Cannot delete category. It has '' @ show_nat (courseCount d cid) @ '' associated courses.'') CONFLICT)"
  using assms associated_message[of "courseCount d cid"]
  by (simp add: deleteCategoryController_def deleteCategory_def catch_associated_def)

lemma find_exists: "(\<exists>x\<in>set xs. P x) \<Longrightarrow> \<exists>y. find P xs = Some y"
  by (induction xs) auto

text \<open>
  Claim C9. Deleting a category that at least one course that is not soft-deleted refers to
  is answered 409 and deletes nothing; deleting an existing category that no such course
  refers to succeeds and removes exactly that category.
\<close>

theorem C9_delete_category:
  "(courseCount d cid > 0 \<longrightarrow> (\<exists>m. deleteCategoryController d cid = Inl (AppError m CONFLICT)))
 \<and> (courseCount d cid = 0 \<and> (\<exists>k\<in>set (categories d). cat_id k = cid)
      \<longrightarrow> (\<exists>d'. deleteCategoryController d cid = Inr d'
                \<and> categories d' = filter (\<lambda>k. cat_id k \<noteq> cid) (categories d)
                \<and> (\<forall>k\<in>set (categories d'). cat_id k \<noteq> cid)
                \<and> courses d' = courses d))"
proof -
  have blocked: "courseCount d cid > 0 \<longrightarrow> (\<exists>m. deleteCategoryController d cid = Inl (AppError m CONFLICT))"
    using delete_blocked[of d cid] by blast
  have deleted: "courseCount d cid = 0 \<and> (\<exists>k\<in>set (categories d). cat_id k = cid)
      \<longrightarrow> (\<exists>d'. deleteCategoryController d cid = Inr d'
                \<and> categories d' = filter (\<lambda>k. cat_id k \<noteq> cid) (categories d)
                \<and> (\<forall>k\<in>set (categories d'). cat_id k \<noteq> cid)
                \<and> courses d' = courses d)"
  proof
    assume h: "courseCount d cid = 0 \<and> (\<exists>k\<in>set (categories d). cat_id k = cid)"
    then obtain y where y: "find (\<lambda>k. cat_id k = cid) (categories d) = Some y"
      using find_exists[of "categories d" "\<lambda>k. cat_id k = cid"] by blast
    have "deleteCategoryController d cid = Inr (d\<lparr>categories := filter (\<lambda>k. cat_id k \<noteq> cid) (categories d)\<rparr>)"
      using h y by (simp add: deleteCategoryController_def deleteCategory_def)
    then show "\<exists>d'. deleteCategoryController d cid = Inr d'
                \<and> categories d' = filter (\<lambda>k. cat_id k \<noteq> cid) (categories d)
                \<and> (\<forall>k\<in>set (categories d'). cat_id k \<noteq> cid)
                \<and> courses d' = courses d"
      by simp
  qed
  from blocked deleted show ?thesis by (rule conjI)
qed

lemma ex_counts: "courseCount ex_db 5 = 1 \<and> courseCount ex_db 6 = 0"
  by (simp add: courseCount_def ex_db_def ex_course1_def ex_course2_def)

text \<open>Category 5 is the category of course 1; no course refers to category 6.\<close>

theorem C9_delete_category_witness:
  "(\<exists>m. deleteCategoryController ex_db 5 = Inl (AppError m CONFLICT))
 \<and> (\<exists>d'. deleteCategoryController ex_db 6 = Inr d'
        \<and> categories d' = filter (\<lambda>k. cat_id k \<noteq> 6) (categories ex_db)
        \<and> (\<forall>k\<in>set (categories d'). cat_id k \<noteq> 6)
        \<and> courses d' = courses ex_db)"
proof -
  have a: "courseCount ex_db 5 > 0" using ex_counts by simp
  have b: "courseCount ex_db 6 = 0 \<and> (\<exists>k\<in>set (categories ex_db). cat_id k = 6)"
    using ex_counts by (simp add: ex_db_def)
  from C9_delete_category[of ex_db 5] a
  have 1: "\<exists>m. deleteCategoryController ex_db 5 = Inl (AppError m CONFLICT)" by blast
  from C9_delete_category[of ex_db 6] b
  have 2: "\<exists>d'. deleteCategoryController ex_db 6 = Inr d'
        \<and> categories d' = filter (\<lambda>k. cat_id k \<noteq> 6) (categories ex_db)
        \<and> (\<forall>k\<in>set (categories d'). cat_id k \<noteq> 6)
        \<and> courses d' = courses ex_db" by blast
  from 1 2 show ?thesis by (rule conjI)
qed

text \<open>A category id that no row has is answered 404.\<close>

lemma delete_missing_category:
  assumes "courseCount d cid = 0" and "\<forall>k\<in>set (categories d). cat_id k \<noteq> cid"
  shows "deleteCategoryController d cid = Inl (AppError ''Category not found'' NOT_FOUND)"
proof -
  from assms(2) have "find (\<lambda>k. cat_id k = cid) (categories d) = None"
    by (simp add: find_None_iff)
  with assms(1) show ?thesis
    by (simp add: deleteCategoryController_def deleteCategory_def not_found_message_kept)
qed

subsection \<open>Submissions and lateness\<close>


lemma submit_cases:
  assumes "submitAssignmentController d now u aid content fp = Inr (d', row)"
  shows "\<exists>a c. assignment_with_course d aid = Some (a, c)
           \<and> existingSubmission d aid u = []
           \<and> s_is_late row = compute_isLate now (a_due_date a)
           \<and> s_assignment_id row = aid \<and> s_student_id row = u
           \<and> submissions d' = submissions d @ [row]"
  using assms
  by (auto simp: submitAssignmentController_def Let_def split: option.splits if_splits)







lemma ex_assignment_chain1: "assignment_with_course ex_db 1 = Some (ex_assignment1, ex_course1)"
  by (simp add: assignment_with_course_def getLessonWithCourseInfo_def
      ex_db_def ex_assignment1_def ex_assignment2_def ex_course1_def ex_course2_def)

lemma ex_assignment_chain2: "assignment_with_course ex_db 2 = Some (ex_assignment2, ex_course1)"
  by (simp add: assignment_with_course_def getLessonWithCourseInfo_def
      ex_db_def ex_assignment1_def ex_assignment2_def ex_course1_def ex_course2_def)

lemma ex_submissions: "submissions ex_db = [ex_submission1, ex_submission2]"
  by (simp add: ex_db_def)

lemma ex_create:
  "submitAssignmentController ex_db 50 21 1 (Some ''draft'') None = Inr (ex_db_submitted, ex_submission3)"
proof -
  have none: "existingSubmission ex_db 1 21 = []"
    by (simp add: existingSubmission_def ex_submissions ex_submission1_def ex_submission2_def)
  have next_id: "next_submission_id ex_db = 3"
    by (simp add: next_submission_id_def ex_submissions ex_submission1_def ex_submission2_def)
  have late: "compute_isLate 50 (a_due_date ex_assignment1) = Some False"
    by (simp add: compute_isLate_def isDatePast_def ex_assignment1_def)
  have t: "trim ''draft'' = ''draft''"
    by (simp add: trim_def is_space_def)
  show ?thesis
    unfolding submitAssignmentController_def
    by (simp add: ex_assignment_chain1 none next_id late t Let_def ex_db_submitted_def ex_submission3_def
        ex_submissions del: One_nat_def)
qed






subsection \<open>A second submission\<close>

lemma submit_conflict:
  assumes "existingSubmission d aid u \<noteq> []"
  shows "\<exists>e. submitAssignmentController d now u aid content fp = Inl e"
  using assms
  by (auto simp: submitAssignmentController_def Let_def split: option.splits)

lemma submit_conflict_409:
  assumes "existingSubmission d aid u \<noteq> []"
    and "assignment_with_course d aid = Some (a, c)"
    and "\<not> (truthy (compute_isLate now (a_due_date a)) \<and> \<not> a_allow_late_submission a)"
  shows "submitAssignmentController d now u aid content fp
         = Inl (AppError ''You have already submitted this assignment'' CONFLICT)"
  using assms
  by (auto simp: submitAssignmentController_def Let_def)

lemma no_existing_key:
  "existingSubmission d aid u = [] \<Longrightarrow> (aid, u) \<notin> set (map (\<lambda>s. (s_assignment_id s, s_student_id s)) (submissions d))"
  by (auto simp: existingSubmission_def filter_empty_conv)

lemma submit_keeps_one_per_pair:
  assumes inv: "one_submission_per_pair d"
    and run: "submitAssignmentController d now u aid content fp = Inr (d', row)"
  shows "one_submission_per_pair d'"
proof -
  from submit_cases[OF run] obtain a c where
    none: "existingSubmission d aid u = []"
    and key: "s_assignment_id row = aid" "s_student_id row = u"
    and d': "submissions d' = submissions d @ [row]"
    by blast
  from no_existing_key[OF none] key inv d' show ?thesis
    by (simp add: one_submission_per_pair_def)
qed

text \<open>
  Claim C8, as the code orders its checks. When the student already has a submission for
  the assignment, whether graded or not, \<open>submitAssignmentController\<close> never creates a
  second one: it always answers with an error. The error is 409 when the assignment
  resolves and the deadline check before it passes (not late, or late work accepted);
  the deadline check and the lookup of the assignment come first. The check keeps the
  store at no more than one submission for each assignment and student.
\<close>

theorem C8_second_submission_rejected:
  "(existingSubmission d aid u \<noteq> [] \<longrightarrow> (\<exists>e. submitAssignmentController d now u aid content fp = Inl e))
 \<and> (existingSubmission d aid u \<noteq> [] \<and> assignment_with_course d aid = Some (a, c)
      \<and> \<not> (truthy (compute_isLate now (a_due_date a)) \<and> \<not> a_allow_late_submission a)
    \<longrightarrow> submitAssignmentController d now u aid content fp
          = Inl (AppError ''You have already submitted this assignment'' CONFLICT))
 \<and> (one_submission_per_pair d \<and> submitAssignmentController d now u aid content fp = Inr (d', row)
    \<longrightarrow> one_submission_per_pair d')"
proof -
  have 1: "existingSubmission d aid u \<noteq> [] \<longrightarrow> (\<exists>e. submitAssignmentController d now u aid content fp = Inl e)"
    using submit_conflict by blast
  have 2: "existingSubmission d aid u \<noteq> [] \<and> assignment_with_course d aid = Some (a, c)
      \<and> \<not> (truthy (compute_isLate now (a_due_date a)) \<and> \<not> a_allow_late_submission a)
    \<longrightarrow> submitAssignmentController d now u aid content fp
          = Inl (AppError ''You have already submitted this assignment'' CONFLICT)"
    using submit_conflict_409[of d aid u a c now content fp] by blast
  have 3: "one_submission_per_pair d \<and> submitAssignmentController d now u aid content fp = Inr (d', row)
    \<longrightarrow> one_submission_per_pair d'"
    using submit_keeps_one_per_pair by blast
  show ?thesis by (rule conjI[OF 1 conjI[OF 2 3]])
qed

lemma ex_existing: "existingSubmission ex_db 1 20 \<noteq> [] \<and> existingSubmission ex_db 2 20 \<noteq> []"
  by (simp add: existingSubmission_def ex_submissions ex_submission1_def ex_submission2_def)

lemma ex_one_per_pair: "one_submission_per_pair ex_db"
  by (simp add: one_submission_per_pair_def ex_submissions ex_submission1_def ex_submission2_def)

text \<open>
  Student 20 hands in assignment 1 a second time at 150 (late work is accepted there): 409.
  The first submission of student 21 keeps the store at one submission for each pair.
\<close>

theorem C8_second_submission_rejected_witness:
  "submitAssignmentController ex_db 150 20 1 (Some ''again'') None
     = Inl (AppError ''You have already submitted this assignment'' CONFLICT)
 \<and> one_submission_per_pair ex_db_submitted"
proof -
  have opn: "\<not> (truthy (compute_isLate 150 (a_due_date ex_assignment1)) \<and> \<not> a_allow_late_submission ex_assignment1)"
    by (simp add: ex_assignment1_def)
  have ex: "existingSubmission ex_db 1 20 \<noteq> []" using ex_existing by simp
  note reject = C8_second_submission_rejected[where d=ex_db and aid=1 and u=20 and now=150
      and content="Some ''again''" and fp=None and a=ex_assignment1 and c=ex_course1]
  from reject ex ex_assignment_chain1 opn
  have A: "submitAssignmentController ex_db 150 20 1 (Some ''again'') None
     = Inl (AppError ''You have already submitted this assignment'' CONFLICT)"
    by blast
  note keep = C8_second_submission_rejected[where d=ex_db and aid=1 and u=21 and now=50
      and content="Some ''draft''" and fp=None and d'=ex_db_submitted and row=ex_submission3]
  from keep ex_one_per_pair ex_create
  have B: "one_submission_per_pair ex_db_submitted" by blast
  show ?thesis by (rule conjI[OF A B])
qed

text \<open>
  Student 20 hands in assignment 2 a second time at 150, after its due date 100; the
  assignment takes no late work, and the answer is 400, not 409.
\<close>

theorem C8_deadline_before_conflict_counterexample:
  "existingSubmission ex_db 2 20 \<noteq> []
 \<and> submitAssignmentController ex_db 150 20 2 (Some ''again'') None
     = Inl (AppError ''Assignment submission deadline has passed'' BAD_REQUEST)"
proof -
  have late: "truthy (compute_isLate 150 (a_due_date ex_assignment2)) \<and> \<not> a_allow_late_submission ex_assignment2"
    by (simp add: compute_isLate_def isDatePast_def ex_assignment2_def)
  have "submitAssignmentController ex_db 150 20 2 (Some ''again'') None
     = Inl (AppError ''Assignment submission deadline has passed'' BAD_REQUEST)"
    unfolding submitAssignmentController_def using late
    by (simp add: ex_assignment_chain2 Let_def)
  with ex_existing show ?thesis by simp
qed

subsection \<open>Quiz grading\<close>







lemma ex_lesson1: "getQuizzesByLesson ex_db 1 = [ex_quiz1, ex_quiz2]"
  by (simp add: getQuizzesByLesson_def ex_db_def ex_quiz1_def ex_quiz2_def ex_quiz3_def ex_quiz4_def)

lemma ex_lesson2: "getQuizzesByLesson ex_db 2 = [ex_quiz3, ex_quiz4]"
  by (simp add: getQuizzesByLesson_def ex_db_def ex_quiz1_def ex_quiz2_def ex_quiz3_def ex_quiz4_def)

lemma ex_lesson3: "getQuizzesByLesson ex_db 3 = []"
  by (simp add: getQuizzesByLesson_def ex_db_def ex_quiz1_def ex_quiz2_def ex_quiz3_def ex_quiz4_def)


lemma ex_correct34: "check_answer ex_quiz3 (ex_answers 3) \<and> check_answer ex_quiz4 (ex_answers 4)"
  by code_simp



subsection \<open>Validation of answers\<close>

lemma outside_option_error:
  assumes "q_quiz_type quiz = ''multiple_choice''"
    and "q_options quiz = Some opts" and "opts \<noteq> []"
    and "Some (answers (q_id quiz)) \<notin> set (validOptions opts)"
  shows "validate_answer answers quiz \<noteq> []"
  using assms by (simp add: validate_answer_def Let_def)

lemma validate_member:
  "quiz \<in> set qs \<Longrightarrow> validate_answer answers quiz \<noteq> [] \<Longrightarrow> validateQuizAnswers answers qs \<noteq> []"
  by (induction qs) auto

lemma invalid_never_graded:
  assumes "validateQuizAnswers answers (getQuizzesByLesson d lid) \<noteq> []"
  shows "(\<forall>g. submitQuizAnswersController d user lid answers \<noteq> Inr g)
       \<and> (user_role user = Student \<and> getLessonWithCourseInfo d lid \<noteq> None
            \<longrightarrow> submitQuizAnswersController d user lid answers
                = Inl (AppError (join (validateQuizAnswers answers (getQuizzesByLesson d lid)) '', '') BAD_REQUEST))"
proof -
  from assms have ne: "getQuizzesByLesson d lid \<noteq> []" by auto
  show ?thesis using assms ne
    by (auto simp: submitQuizAnswersController_def Let_def split: option.splits)
qed

text \<open>
  Claim C7. When a multiple-choice quiz of the lesson declares options and the submitted
  answer for it is none of them, \<open>submitQuizAnswersController\<close> never returns a graded
  result; for a student and an existing lesson it answers 400 with the validation
  messages, before any grading.
\<close>

theorem C7_option_outside_set_rejected:
  assumes "quiz \<in> set (getQuizzesByLesson d lid)"
    and "q_quiz_type quiz = ''multiple_choice''"
    and "q_options quiz = Some opts" and "opts \<noteq> []"
    and "Some (answers (q_id quiz)) \<notin> set (validOptions opts)"
  shows "(\<forall>g. submitQuizAnswersController d user lid answers \<noteq> Inr g)
       \<and> (user_role user = Student \<and> getLessonWithCourseInfo d lid \<noteq> None
            \<longrightarrow> (\<exists>m. submitQuizAnswersController d user lid answers = Inl (AppError m BAD_REQUEST)))"
proof -
  have "validateQuizAnswers answers (getQuizzesByLesson d lid) \<noteq> []"
    using validate_member[OF assms(1), of answers]
          outside_option_error[where answers=answers, OF assms(2) assms(3) assms(4) assms(5)]
    by blast
  from invalid_never_graded[OF this, of user] show ?thesis by blast
qed

lemma ex_lesson_resolves: "getLessonWithCourseInfo ex_db 1 \<noteq> None"
  by (simp add: getLessonWithCourseInfo_def ex_db_def ex_course1_def ex_course2_def)

text \<open>Quiz 1 offers 3 and 4; the student answers 5.\<close>

theorem C7_option_outside_set_rejected_witness:
  "(\<forall>g. submitQuizAnswersController ex_db ex_student 1 ex_answers_outside \<noteq> Inr g)
 \<and> (\<exists>m. submitQuizAnswersController ex_db ex_student 1 ex_answers_outside = Inl (AppError m BAD_REQUEST))"
proof -
  have q: "ex_quiz1 \<in> set (getQuizzesByLesson ex_db 1)" unfolding ex_lesson1 by simp
  have t: "q_quiz_type ex_quiz1 = ''multiple_choice''" by (simp add: ex_quiz1_def)
  have o: "q_options ex_quiz1 = Some [OptStr ''3'', OptStr ''4'']" by (simp add: ex_quiz1_def)
  have n: "[OptStr ''3'', OptStr ''4''] \<noteq> []" by simp
  have out: "Some (ex_answers_outside (q_id ex_quiz1)) \<notin> set (validOptions [OptStr ''3'', OptStr ''4''])"
    by (simp add: ex_answers_outside_def ex_quiz1_def validOptions_def)
  have st: "user_role ex_student = Student \<and> getLessonWithCourseInfo ex_db 1 \<noteq> None"
    using ex_lesson_resolves by (simp add: ex_student_def)
  from C7_option_outside_set_rejected[where answers=ex_answers_outside and user=ex_student, OF q t o n out] st
  show ?thesis by blast
qed

subsection \<open>Listing the quizzes of a lesson\<close>

text \<open>
  A student who asks with \<open>forStudent=true\<close> gets the questions without answers; a
  student who asks without the flag falls into the branch written for instructors and
  admins, where only an instructor is checked against the course, and gets the full rows.
\<close>

lemma listing_with_flag:
  assumes "user_role user = Student" and "getLessonWithCourseInfo d lid = Some lc"
  shows "getQuizzesByLessonController d user lid (Some ''true'') = Inr (QuestionsOnly (getQuizQuestionsForStudent d lid))
       \<and> listed_answers (QuestionsOnly (getQuizQuestionsForStudent d lid)) = []"
  using assms by (cases lc) (simp add: getQuizzesByLessonController_def)

lemma listing_without_flag:
  assumes "user_role user = Student" and "getLessonWithCourseInfo d lid = Some lc"
    and "forStudent \<noteq> Some ''true''"
  shows "getQuizzesByLessonController d user lid forStudent = Inr (FullQuizData (getQuizzesByLesson d lid))
       \<and> listed_answers (FullQuizData (getQuizzesByLesson d lid)) = map q_answer (getQuizzesByLesson d lid)"
  using assms by (cases lc) (simp add: getQuizzesByLessonController_def)

text \<open>
  Claim C4 at a request the code answers otherwise: student 20 lists the quizzes of
  lesson 1 without the query flag, and the response carries the stored answers.
\<close>

theorem C4_student_listing_carries_answers:
  "user_role ex_student = Student
 \<and> getQuizzesByLessonController ex_db ex_student 1 None = Inr (FullQuizData [ex_quiz1, ex_quiz2])
 \<and> listed_answers (FullQuizData [ex_quiz1, ex_quiz2]) = [''4'', ''true'']"
proof -
  obtain lc where lc: "getLessonWithCourseInfo ex_db 1 = Some lc"
    using ex_lesson_resolves by blast
  have st: "user_role ex_student = Student" by (simp add: ex_student_def)
  have flag: "None \<noteq> Some ''true''" by simp
  from listing_without_flag[OF st lc flag, unfolded ex_lesson1]
  have "getQuizzesByLessonController ex_db ex_student 1 None = Inr (FullQuizData [ex_quiz1, ex_quiz2])"
    by (rule conjunct1)
  moreover have "listed_answers (FullQuizData [ex_quiz1, ex_quiz2]) = [''4'', ''true'']"
    by (simp add: ex_quiz1_def ex_quiz2_def)
  ultimately show ?thesis using st by blast
qed

end
